theory Spec2Isabelle
  imports Complex_Main "HOL-Library.Word" "HOL-Library.AList" "HOL-Library.Log_Nat"
begin

section \<open>JavaScript values\<close>

text \<open>
  The program is the browser demo \<^verbatim>\<open>app.js\<close>. Its two copies differ in how the user
  signs in and in where the region of the Bedrock client comes from (\<^verbatim>\<open>awsRegion\<close> in one,
  \<^verbatim>\<open>AWS_CONFIG.region\<close> in the other; the region is left out here); the functions
  \<^verbatim>\<open>buildPrompt\<close> and \<^verbatim>\<open>generateImage\<close> and the validation of \<^verbatim>\<open>handleGenerate\<close> are the same
  text in both.

  A JavaScript string is a sequence of UTF-16 code units: \<^verbatim>\<open>substring\<close>, \<^verbatim>\<open>startsWith\<close>
  and \<^verbatim>\<open>split\<close> count and compare code units. The string literals of the source are ASCII
  and are written through \<open>js\<close>.
\<close>

type_synonym code_unit = "16 word"

type_synonym jsstring = "code_unit list"

definition js :: "string \<Rightarrow> jsstring" where
  "js s = map of_char s"

text \<open>
  The values that \<^verbatim>\<open>JSON.parse\<close> returns and that \<^verbatim>\<open>JSON.stringify\<close> writes. An object is
  the list of its properties in insertion order, each key once. \<^verbatim>\<open>undefined\<close>, which a
  property read may give, is \<open>None\<close> of \<open>jsval\<close>.
\<close>

datatype json =
    JNull
  | JBool bool
  | JNum rat
  | JStr jsstring
  | JArr "json list"
  | JObj "(string \<times> json) list"

type_synonym jsval = "json option"

text \<open>
  What the program can throw: \<open>Error m\<close> is \<^verbatim>\<open>new Error(m)\<close>, \<open>TypeError\<close> is a property
  read on \<^verbatim>\<open>null\<close> or \<^verbatim>\<open>undefined\<close>, and \<open>External m\<close> is whatever a platform call
  (\<^verbatim>\<open>invokeModel\<close>, \<^verbatim>\<open>JSON.parse\<close>, \<^verbatim>\<open>atob\<close>) rejects or throws with.
\<close>

datatype error =
    Error string
  | TypeError
  | External string

text \<open>The condition of \<^verbatim>\<open>if (v)\<close>.\<close>

fun truthy :: "jsval \<Rightarrow> bool" where
  "truthy None = False"
| "truthy (Some JNull) = False"
| "truthy (Some (JBool b)) = b"
| "truthy (Some (JNum n)) = (n \<noteq> 0)"
| "truthy (Some (JStr s)) = (s \<noteq> [])"
| "truthy (Some (JArr xs)) = True"
| "truthy (Some (JObj kvs)) = True"

text \<open>
  The property read \<^verbatim>\<open>v.k\<close> for the names the program reads (\<^verbatim>\<open>images\<close>, \<^verbatim>\<open>artifacts\<close>,
  \<^verbatim>\<open>base64\<close>), none of which a string, an array, a number or a boolean has of its own.
\<close>

fun getProp :: "jsval \<Rightarrow> string \<Rightarrow> error + jsval" where
  "getProp None k = Inl TypeError"
| "getProp (Some JNull) k = Inl TypeError"
| "getProp (Some (JObj kvs)) k = Inr (map_of kvs k)"
| "getProp (Some v) k = Inr None"

text \<open>The element read \<^verbatim>\<open>v[0]\<close>.\<close>

fun index0 :: "jsval \<Rightarrow> error + jsval" where
  "index0 None = Inl TypeError"
| "index0 (Some JNull) = Inl TypeError"
| "index0 (Some (JArr xs)) = Inr (case xs of [] \<Rightarrow> None | x # rest \<Rightarrow> Some x)"
| "index0 (Some (JStr s)) = Inr (case s of [] \<Rightarrow> None | c # rest \<Rightarrow> Some (JStr [c]))"
| "index0 (Some (JObj kvs)) = Inr (map_of kvs ''0'')"
| "index0 (Some v) = Inr None"

text \<open>
  The assignment \<^verbatim>\<open>o.k = v\<close> on an object (a new key goes last), the same assignment
  one level down, \<^verbatim>\<open>o.k1.k2 = v\<close>, through \<open>inProp\<close>, and \<^verbatim>\<open>a.push(v)\<close>.
\<close>

fun setProp :: "string \<Rightarrow> json \<Rightarrow> json \<Rightarrow> json" where
  "setProp k v (JObj kvs) = JObj (AList.update k v kvs)"
| "setProp k v other = other"

fun inProp :: "string \<Rightarrow> (json \<Rightarrow> json) \<Rightarrow> json \<Rightarrow> json" where
  "inProp k f (JObj kvs) = JObj (AList.map_entry k f kvs)"
| "inProp k f other = other"

fun push :: "json \<Rightarrow> json \<Rightarrow> json" where
  "push v (JArr xs) = JArr (xs @ [v])"
| "push v other = other"

text \<open>
  Reading a value along a path of property names and array positions, for stating what
  a payload holds.
\<close>

datatype step = Key string | Idx nat

fun path :: "step list \<Rightarrow> json \<Rightarrow> jsval" where
  "path [] v = Some v"
| "path (Key k # ks) (JObj kvs) = (case map_of kvs k of None \<Rightarrow> None | Some v \<Rightarrow> path ks v)"
| "path (Idx i # ks) (JArr xs) = (if i < length xs then path ks (xs ! i) else None)"
| "path ks v = None"

section \<open>Strings\<close>

definition startsWith :: "jsstring \<Rightarrow> jsstring \<Rightarrow> bool" where
  "startsWith s p = (take (length p) s = p)"

definition substring0 :: "jsstring \<Rightarrow> nat \<Rightarrow> jsstring" where
  "substring0 s n = take n s"

text \<open>
  \<^verbatim>\<open>s.split(sep)\<close> for a separator of one code unit: the pieces between the separators,
  always at least one piece. \<^verbatim>\<open>xs.join(sep)\<close> puts the separator between the pieces.
\<close>

fun split :: "code_unit \<Rightarrow> jsstring \<Rightarrow> jsstring list" where
  "split sep [] = [[]]"
| "split sep (c # cs) =
     (if c = sep then [] # split sep cs
      else (case split sep cs of [] \<Rightarrow> [[c]] | x # xs \<Rightarrow> (c # x) # xs))"

fun join :: "jsstring \<Rightarrow> jsstring list \<Rightarrow> jsstring" where
  "join sep [] = []"
| "join sep [x] = x"
| "join sep (x # y # ys) = x @ sep @ join sep (y # ys)"

definition period :: code_unit where
  "period = 0x2E"

definition nl :: code_unit where
  "nl = 0x0A"

section \<open>buildPrompt\<close>

text \<open>The template literal of \<^verbatim>\<open>buildPrompt\<close>, line breaks included.\<close>

definition buildPrompt ::
  "jsstring \<Rightarrow> jsstring \<Rightarrow> jsstring \<Rightarrow> jsstring \<Rightarrow> jsstring \<Rightarrow> jsstring \<Rightarrow> jsstring" where
  "buildPrompt context style name role description frame =
     frame @ [nl, nl]
     @ js ''Character: '' @ name @ js '', '' @ role @ js ''.'' @ [nl]
     @ description @ [nl, nl]
     @ js ''Setting: '' @ join (js ''.'') (take 2 (split period context)) @ js ''.'' @ [nl, nl]
     @ js ''Style: '' @ style"

text \<open>
  The setting text said a second way: the context up to its second period, the period
  left out, or the whole context when it has fewer than two.
\<close>

definition firstTwoSegments :: "jsstring \<Rightarrow> jsstring" where
  "firstTwoSegments context =
     (case dropWhile (\<lambda>c. c \<noteq> period) context of
        [] \<Rightarrow> context
      | d # rest \<Rightarrow>
          takeWhile (\<lambda>c. c \<noteq> period) context @ [period]
          @ takeWhile (\<lambda>c. c \<noteq> period) rest)"

text \<open>
  The composition as the specification words it: the five lines, each separated from
  the next by a blank line.
\<close>

definition blankLineJoined ::
  "jsstring \<Rightarrow> jsstring \<Rightarrow> jsstring \<Rightarrow> jsstring \<Rightarrow> jsstring \<Rightarrow> jsstring \<Rightarrow> jsstring" where
  "blankLineJoined context style name role description frame =
     join [nl, nl]
       [frame,
        js ''Character: '' @ name @ js '', '' @ role @ js ''.'',
        description,
        js ''Setting: '' @ join (js ''.'') (take 2 (split period context)) @ js ''.'',
        js ''Style: '' @ style]"

section \<open>Numbers\<close>

text \<open>
  A JavaScript number is an IEEE-754 double, and \<^verbatim>\<open>a * b\<close> is the exact product rounded
  to the nearest double, a tie going to the even significand. \<open>toDouble\<close> is that
  rounding on a rational below \<open>2^1024\<close> in size (the products here are below \<open>2^32\<close>):
  with \<open>2^e \<le> |x| < 2^(e+1)\<close> the doubles around \<open>x\<close> are the multiples of
  \<open>2^(e-52)\<close>, and of \<open>2^(-1074)\<close> below \<open>2^(-1022)\<close>.
\<close>

definition roundHalfEven :: "rat \<Rightarrow> int" where
  "roundHalfEven q =
     (let n = \<lfloor>q\<rfloor>; d = q - of_int n
      in if d < 1 / 2 then n else if 1 / 2 < d then n + 1 else if even n then n else n + 1)"

text \<open>The \<open>e\<close> with \<open>2^e \<le> x < 2^(e+1)\<close>, for \<open>x > 0\<close>.\<close>

definition exponent :: "rat \<Rightarrow> int" where
  "exponent x =
     (if 1 \<le> x then bitlen \<lfloor>x\<rfloor> - 1
      else - bitlen (\<lceil>1 / x\<rceil> - 1))"

definition toDouble :: "rat \<Rightarrow> rat" where
  "toDouble x =
     (if x = 0 then 0
      else (let k = max (exponent \<bar>x\<bar>) (- 1022) - 52
            in of_int (roundHalfEven (x / 2 powi k)) * 2 powi k))"

section \<open>generateImage\<close>

text \<open>
  The request body that \<^verbatim>\<open>generateImage\<close> builds before the call. \<open>r\<close> is the number
  that the one call of \<^verbatim>\<open>Math.random()\<close> on the taken branch returns, \<open>0 \<le> r < 1\<close>;
  the seed is \<^verbatim>\<open>Math.floor\<close> of the double product. An assignment after the object
  literal adds its key last.
\<close>

definition requestBody :: "jsstring \<Rightarrow> jsstring \<Rightarrow> jsstring \<Rightarrow> rat \<Rightarrow> json" where
  "requestBody modelId prompt negative r =
     (if startsWith modelId (js ''amazon.titan'') then
        (let body = JObj
           [(''taskType'', JStr (js ''TEXT_IMAGE'')),
            (''textToImageParams'', JObj
               [(''text'', JStr (substring0 prompt 512))]),
            (''imageGenerationConfig'', JObj
               [(''numberOfImages'', JNum 1),
                (''quality'', JStr (js ''premium'')),
                (''height'', JNum 1024),
                (''width'', JNum 1024),
                (''cfgScale'', JNum 8),
                (''seed'', JNum (of_int \<lfloor>toDouble (r * 2147483646)\<rfloor>))])]
         in if negative \<noteq> []
            then inProp ''textToImageParams''
                   (setProp ''negativeText'' (JStr (substring0 negative 512))) body
            else body)
      else if startsWith modelId (js ''stability.sd3'') then
        (let body = JObj
           [(''prompt'', JStr (substring0 prompt 10000)),
            (''mode'', JStr (js ''text-to-image'')),
            (''aspect_ratio'', JStr (js ''1:1'')),
            (''output_format'', JStr (js ''png'')),
            (''seed'', JNum (of_int \<lfloor>toDouble (r * 4294967294)\<rfloor>))]
         in if negative \<noteq> []
            then setProp ''negative_prompt'' (JStr negative) body
            else body)
      else
        (let body = JObj
           [(''text_prompts'', JArr
               [JObj [(''text'', JStr (substring0 prompt 2000)), (''weight'', JNum 1)]]),
            (''cfg_scale'', JNum 7),
            (''seed'', JNum (of_int \<lfloor>toDouble (r * 4294967294)\<rfloor>)),
            (''steps'', JNum 50),
            (''width'', JNum 1024),
            (''height'', JNum 1024)]
         in if negative \<noteq> []
            then inProp ''text_prompts''
                   (push (JObj [(''text'', JStr negative), (''weight'', JNum (- 1))])) body
            else body))"

text \<open>
  The argument of \<^verbatim>\<open>bedrock.invokeModel\<close>; the body is the value that
  \<^verbatim>\<open>JSON.stringify\<close> writes out.
\<close>

record request =
  req_modelId :: jsstring
  req_body :: json
  req_accept :: string
  req_contentType :: string

definition invokeRequest :: "jsstring \<Rightarrow> json \<Rightarrow> request" where
  "invokeRequest modelId body =
     \<lparr>req_modelId = modelId, req_body = body,
      req_accept = ''application/json'', req_contentType = ''application/json''\<rparr>"

text \<open>
  What the program does not own: the numbers \<^verbatim>\<open>Math.random()\<close> returns, call after
  call; the answer of the backend to the \<open>i\<close>-th call, already parsed (a rejected call
  and a body that does not parse are errors); \<^verbatim>\<open>atob\<close>; \<^verbatim>\<open>parseInt\<close>, \<open>None\<close> being
  \<^verbatim>\<open>NaN\<close>.
\<close>

record env =
  mathRandom :: "nat \<Rightarrow> rat"
  invokeModel :: "nat \<Rightarrow> request \<Rightarrow> error + json"
  atob :: "jsval \<Rightarrow> error + jsstring"
  parseInt :: "jsstring \<Rightarrow> int option"

text \<open>
  The state the program changes: the credentials (\<^verbatim>\<open>awsCredentials\<close>, an access key id
  and a secret key, or \<^verbatim>\<open>null\<close>), how many random numbers have been drawn, and the
  calls made to the backend so far, oldest first.
\<close>

record world =
  awsCredentials :: "(jsstring \<times> jsstring) option"
  draws :: nat
  calls :: "request list"

text \<open>
  The choice of the image field in the parsed response: \<^verbatim>\<open>images[0]\<close> when
  \<^verbatim>\<open>responseBody.images\<close> is truthy, else \<^verbatim>\<open>artifacts[0].base64\<close> when
  \<^verbatim>\<open>responseBody.artifacts\<close> is truthy, else the error.
\<close>

definition extractImage :: "json \<Rightarrow> error + jsval" where
  "extractImage responseBody =
     (case getProp (Some responseBody) ''images'' of
        Inl e \<Rightarrow> Inl e
      | Inr images \<Rightarrow>
          if truthy images then index0 images
          else (case getProp (Some responseBody) ''artifacts'' of
                  Inl e \<Rightarrow> Inl e
                | Inr artifacts \<Rightarrow>
                    if truthy artifacts
                    then (case index0 artifacts of
                            Inl e \<Rightarrow> Inl e
                          | Inr first \<Rightarrow> getProp first ''base64'')
                    else Inl (Error ''No image in response'')))"

text \<open>
  \<^verbatim>\<open>generateImage(modelId, prompt, negative, size)\<close>: build the body, call the backend
  once, pick the image field, decode it to bytes
  (\<^verbatim>\<open>Uint8Array.from(atob(b), c => c.charCodeAt(0))\<close> keeps the low 8 bits of each code
  unit). The parameter \<^verbatim>\<open>size\<close> is not read.
\<close>

definition generateImage ::
  "env \<Rightarrow> jsstring \<Rightarrow> jsstring \<Rightarrow> jsstring \<Rightarrow> int option \<Rightarrow> world
     \<Rightarrow> (error + 8 word list) \<times> world" where
  "generateImage e modelId prompt negative size' w =
     (let body = requestBody modelId prompt negative (mathRandom e (draws w));
          req = invokeRequest modelId body;
          w' = w\<lparr>draws := draws w + 1, calls := calls w @ [req]\<rparr>
      in (case invokeModel e (length (calls w)) req of
            Inl err \<Rightarrow> (Inl err, w')
          | Inr responseBody \<Rightarrow>
              (case extractImage responseBody of
                 Inl err \<Rightarrow> (Inl err, w')
               | Inr base64Image \<Rightarrow>
                   (case atob e base64Image of
                      Inl err \<Rightarrow> (Inl err, w')
                    | Inr bin \<Rightarrow> (Inr (map ucast bin), w')))))"

text \<open>
  The answer of the backend to the call that \<^verbatim>\<open>generateImage\<close> makes from the world
  \<open>w\<close>, and the body of the newest call made.
\<close>

definition answer ::
  "env \<Rightarrow> jsstring \<Rightarrow> jsstring \<Rightarrow> jsstring \<Rightarrow> world \<Rightarrow> error + json" where
  "answer e modelId prompt negative w =
     invokeModel e (length (calls w))
       (invokeRequest modelId (requestBody modelId prompt negative (mathRandom e (draws w))))"

definition sentBody ::
  "env \<Rightarrow> jsstring \<Rightarrow> jsstring \<Rightarrow> jsstring \<Rightarrow> int option \<Rightarrow> world \<Rightarrow> json" where
  "sentBody e modelId prompt negative size' w =
     req_body (last (calls (snd (generateImage e modelId prompt negative size' w))))"

text \<open>
  What \<^verbatim>\<open>generateImage\<close> returns for an answer of the backend: the error of a failed
  call, or the bytes decoded from the image field of the response.
\<close>

definition decodeAnswer :: "env \<Rightarrow> error + json \<Rightarrow> error + 8 word list" where
  "decodeAnswer e a =
     (case a of
        Inl err \<Rightarrow> Inl err
      | Inr responseBody \<Rightarrow>
          (case extractImage responseBody of
             Inl err \<Rightarrow> Inl err
           | Inr base64Image \<Rightarrow>
               (case atob e base64Image of
                  Inl err \<Rightarrow> Inl err
                | Inr bin \<Rightarrow> Inr (map ucast bin))))"

text \<open>
  A call that passes a seed, \<^verbatim>\<open>generateImage(modelId, prompt, negative, size, seed)\<close>:
  the function declares four parameters and never reads \<^verbatim>\<open>arguments\<close>, so the fifth
  argument is dropped. \<open>sentBodyWithSeed\<close> is the body of the call it makes.
\<close>

definition generateImageWithSeed ::
  "env \<Rightarrow> jsstring \<Rightarrow> jsstring \<Rightarrow> jsstring \<Rightarrow> int option \<Rightarrow> int \<Rightarrow> world
     \<Rightarrow> (error + 8 word list) \<times> world" where
  "generateImageWithSeed e modelId prompt negative size' seed w =
     generateImage e modelId prompt negative size' w"

definition sentBodyWithSeed ::
  "env \<Rightarrow> jsstring \<Rightarrow> jsstring \<Rightarrow> jsstring \<Rightarrow> int option \<Rightarrow> int \<Rightarrow> world \<Rightarrow> json" where
  "sentBodyWithSeed e modelId prompt negative size' seed w =
     req_body (last (calls (snd (generateImageWithSeed e modelId prompt negative size' seed w))))"

text \<open>Two calls of \<^verbatim>\<open>generateImage\<close> with the same arguments, one after the other.\<close>

definition generateTwice ::
  "env \<Rightarrow> jsstring \<Rightarrow> jsstring \<Rightarrow> jsstring \<Rightarrow> int option \<Rightarrow> world
     \<Rightarrow> ((error + 8 word list) \<times> (error + 8 word list)) \<times> world" where
  "generateTwice e modelId prompt negative size' w =
     (case generateImage e modelId prompt negative size' w of
        (first, w1) \<Rightarrow>
          (case generateImage e modelId prompt negative size' w1 of
             (second, w2) \<Rightarrow> ((first, second), w2)))"

section \<open>handleGenerate\<close>

text \<open>The values of the form fields that \<^verbatim>\<open>handleGenerate\<close> reads.\<close>

record form =
  world_context :: jsstring
  world_style :: jsstring
  negative_prompt :: jsstring
  char_name :: jsstring
  char_role :: jsstring
  char_description :: jsstring
  model_select :: jsstring
  size_select :: jsstring
  prompt_frame :: jsstring

text \<open>
  What the page shows when \<^verbatim>\<open>handleGenerate\<close> is done: the status line of the missing
  credentials (worded \<^verbatim>\<open>Not authenticated. Please sign in.\<close> in the copy that signs in
  through Cognito), the validation message, the image, or the message of the error caught
  (\<^verbatim>\<open>err.message || 'Generation failed'\<close>, kept here as the error itself).
\<close>

datatype outcome =
    StatusShown string
  | ErrorShown string
  | Failed error
  | Displayed "8 word list"

definition handleGenerate :: "env \<Rightarrow> form \<Rightarrow> world \<Rightarrow> outcome \<times> world" where
  "handleGenerate e f w =
     (if awsCredentials w = None
      then (StatusShown ''Not connected. Please enter your AWS credentials.'', w)
      else
        (let worldContext = world_context f;
             worldStyle = world_style f;
             negative = negative_prompt f;
             charName = char_name f;
             charRole = char_role f;
             charDesc = char_description f;
             model = model_select f;
             size' = parseInt e (size_select f);
             frame = prompt_frame f
         in if worldContext = [] \<or> worldStyle = [] \<or> charName = []
            then (ErrorShown ''Please fill in world context, style, and character name'', w)
            else
              (let prompt = buildPrompt worldContext worldStyle charName charRole charDesc frame
               in (case generateImage e model prompt negative size' w of
                     (Inr imageBytes, w') \<Rightarrow> (Displayed imageBytes, w')
                   | (Inl err, w') \<Rightarrow> (Failed err, w')))))"

section \<open>Sample inputs\<close>

text \<open>
  A backend that answers the first call with one image and every later call with
  another, in the \<^verbatim>\<open>images\<close> format; \<^verbatim>\<open>atob\<close> on these two answers.
\<close>

definition sample_env :: env where
  "sample_env =
     \<lparr>mathRandom = (\<lambda>i. if i = 0 then 1 / 2 else 0),
      invokeModel = (\<lambda>i req.
        Inr (JObj [(''images'', JArr [JStr (if i = 0 then js ''QQ=='' else js ''Qg=='')])])),
      atob = (\<lambda>v. if v = Some (JStr (js ''QQ=='')) then Inr (js ''A'')
                 else if v = Some (JStr (js ''Qg=='')) then Inr (js ''B'')
                 else Inl (External ''InvalidCharacterError'')),
      parseInt = (\<lambda>s. if s = js ''2048'' then Some 2048
                     else if s = js ''64'' then Some 64 else None)\<rparr>"

text \<open>A draw whose product with 2147483646 lies less than half a step below 512.\<close>

definition roundingDraw :: rat where
  "roundingDraw = (2 ^ 30 + 1) / 2 ^ 52"

definition sample_world :: world where
  "sample_world = \<lparr>awsCredentials = Some (js ''AKIAEXAMPLE'', js ''secret''), draws = 0, calls = []\<rparr>"

definition sample_form :: form where
  "sample_form =
     \<lparr>world_context = js ''A station. Humans trade. Second. Third.'',
      world_style = js ''Clean cartoon'',
      negative_prompt = js ''blurry'',
      char_name = js ''Tessa Quark'',
      char_role = js ''Digger'',
      char_description = js ''Optimistic'',
      model_select = js ''amazon.titan-image-generator-v1'',
      size_select = js ''64'',
      prompt_frame = js ''Centered face icon.''\<rparr>"

section \<open>What a call sends and returns\<close>

lemma generateImage_world:
  "snd (generateImage e modelId prompt negative size' w) =
     w\<lparr>draws := draws w + 1,
       calls := calls w @
         [invokeRequest modelId
            (requestBody modelId prompt negative (mathRandom e (draws w)))]\<rparr>"
  by (simp add: generateImage_def Let_def split: sum.splits)

lemma sentBody_eq:
  "sentBody e modelId prompt negative size' w =
     requestBody modelId prompt negative (mathRandom e (draws w))"
  by (simp add: sentBody_def generateImage_world invokeRequest_def)

lemma generateImage_result:
  "fst (generateImage e modelId prompt negative size' w) =
     (case answer e modelId prompt negative w of
        Inl err \<Rightarrow> Inl err
      | Inr responseBody \<Rightarrow>
          (case extractImage responseBody of
             Inl err \<Rightarrow> Inl err
           | Inr base64Image \<Rightarrow>
               (case atob e base64Image of
                  Inl err \<Rightarrow> Inl err
                | Inr bin \<Rightarrow> Inr (map ucast bin))))"
  by (simp add: generateImage_def answer_def Let_def split: sum.splits)

lemma generateTwice_parts:
  "generateTwice e modelId prompt negative size' w =
     ((fst (generateImage e modelId prompt negative size' w),
       fst (generateImage e modelId prompt negative size'
              (snd (generateImage e modelId prompt negative size' w)))),
      snd (generateImage e modelId prompt negative size'
             (snd (generateImage e modelId prompt negative size' w))))"
  by (simp add: generateTwice_def split: prod.splits)

lemma handleGenerate_parts:
  "handleGenerate e f w =
     (if awsCredentials w = None
      then (StatusShown ''Not connected. Please enter your AWS credentials.'', w)
      else if world_context f = [] \<or> world_style f = [] \<or> char_name f = []
      then (ErrorShown ''Please fill in world context, style, and character name'', w)
      else
        ((case fst (generateImage e (model_select f)
                 (buildPrompt (world_context f) (world_style f) (char_name f) (char_role f)
                    (char_description f) (prompt_frame f))
                 (negative_prompt f) (parseInt e (size_select f)) w) of
            Inl err \<Rightarrow> Failed err
          | Inr imageBytes \<Rightarrow> Displayed imageBytes),
         snd (generateImage e (model_select f)
                 (buildPrompt (world_context f) (world_style f) (char_name f) (char_role f)
                    (char_description f) (prompt_frame f))
                 (negative_prompt f) (parseInt e (size_select f)) w)))"
  by (simp add: handleGenerate_def Let_def split: prod.splits sum.splits)

lemma generateImage_size:
  "generateImage e modelId prompt negative size' w = generateImage e modelId prompt negative None w"
  by (simp add: generateImage_def)

lemma generateImage_parseInt:
  "generateImage (e\<lparr>parseInt := q\<rparr>) modelId prompt negative size' w
     = generateImage e modelId prompt negative size' w"
  by (simp add: generateImage_def Let_def split: sum.splits)

lemma toDouble_half_titan:
  "\<lfloor>toDouble 1073741823\<rfloor> = 1073741823"
  by code_simp

lemma sd3_not_titan:
  "startsWith modelId (js ''stability.sd3'') \<Longrightarrow> \<not> startsWith modelId (js ''amazon.titan'')"
  by (cases modelId) (auto simp add: startsWith_def js_def)

lemma titan_text:
  "startsWith modelId (js ''amazon.titan'') \<Longrightarrow>
     path [Key ''textToImageParams'', Key ''text''] (requestBody modelId prompt negative r)
       = Some (JStr (take 512 prompt))"
  by (simp add: requestBody_def substring0_def Let_def)

lemma sd3_text:
  "startsWith modelId (js ''stability.sd3'') \<Longrightarrow>
     path [Key ''prompt''] (requestBody modelId prompt negative r)
       = Some (JStr (take 10000 prompt))"
  using sd3_not_titan [of modelId] by (simp add: requestBody_def substring0_def Let_def)

lemma sdxl_text:
  "\<not> startsWith modelId (js ''amazon.titan'') \<Longrightarrow> \<not> startsWith modelId (js ''stability.sd3'') \<Longrightarrow>
     path [Key ''text_prompts'', Idx 0, Key ''text''] (requestBody modelId prompt negative r)
       = Some (JStr (take 2000 prompt))"
  by (simp add: requestBody_def substring0_def Let_def)

section \<open>Repeated generation\<close>

text \<open>
  Against claim C1 as stated: with a random source that returns the same number every
  time, so that both requests carry the same seed, two calls with the same model, prompt,
  negative prompt and size still make two backend calls, and the second call returns the
  bytes of the second answer, not those of the first.
\<close>

theorem generate_twice_counterexample:
  "map (\<lambda>r. path [Key ''imageGenerationConfig'', Key ''seed''] (req_body r))
     (calls (snd (generateTwice (sample_env\<lparr>mathRandom := \<lambda>i. 1 / 2\<rparr>)
        (js ''amazon.titan-image-generator-v1'') (js ''portrait'') (js ''blurry'') (Some 64)
        sample_world)))
     = [Some (JNum 1073741823), Some (JNum 1073741823)]
   \<and> fst (generateTwice (sample_env\<lparr>mathRandom := \<lambda>i. 1 / 2\<rparr>)
        (js ''amazon.titan-image-generator-v1'') (js ''portrait'') (js ''blurry'') (Some 64)
        sample_world) = (Inr [0x41], Inr [0x42])"
  by (simp add: generateTwice_parts generateImage_world generateImage_result answer_def
      extractImage_def sample_env_def sample_world_def invokeRequest_def requestBody_def
      startsWith_def toDouble_half_titan js_def)

text \<open>
  Claim C1, amended. \<^verbatim>\<open>generateImage\<close> keeps no cache: calling it twice with the same
  arguments makes exactly two backend calls, one per call, each with a body built from
  its own random draw, and each call returns what is decoded from the answer to its own
  call: the first from the answer to the first request, the second from the answer to
  the second.
\<close>

theorem generate_twice_invokes_twice:
  "calls (snd (generateTwice e modelId prompt negative size' w)) =
     calls w @
       [invokeRequest modelId (requestBody modelId prompt negative (mathRandom e (draws w))),
        invokeRequest modelId (requestBody modelId prompt negative (mathRandom e (draws w + 1)))]
   \<and> length (calls (snd (generateTwice e modelId prompt negative size' w))) = length (calls w) + 2
   \<and> fst (generateTwice e modelId prompt negative size' w) =
       (decodeAnswer e (invokeModel e (length (calls w))
          (invokeRequest modelId
             (requestBody modelId prompt negative (mathRandom e (draws w))))),
        decodeAnswer e (invokeModel e (length (calls w) + 1)
          (invokeRequest modelId
             (requestBody modelId prompt negative (mathRandom e (draws w + 1))))))"
  by (simp add: generateTwice_parts generateImage_world generateImage_result answer_def
      decodeAnswer_def)

section \<open>The prompt in the payload\<close>

text \<open>
  Claim C2. For every model id, prompt, negative prompt, size and random draw, the prompt
  text in the body sent to the backend is the prompt cut to the limit of the format chosen
  by the prefix of the model id: the first 512 code units under \<^verbatim>\<open>textToImageParams.text\<close>
  when the id starts with \<^verbatim>\<open>amazon.titan\<close>, the first 10000 under \<^verbatim>\<open>prompt\<close> when it
  starts with \<^verbatim>\<open>stability.sd3\<close>, and the first 2000 under \<^verbatim>\<open>text_prompts[0].text\<close> for
  every other id. The cut is \<^verbatim>\<open>substring\<close>, which returns a new string; the prompt itself is
  a value and stays what it was.
\<close>

theorem prompt_truncated_to_adapter_limit:
  "(startsWith modelId (js ''amazon.titan'') \<longrightarrow>
      path [Key ''textToImageParams'', Key ''text''] (sentBody e modelId prompt negative size' w)
        = Some (JStr (take 512 prompt))
      \<and> length (take 512 prompt) \<le> 512)
   \<and> (startsWith modelId (js ''stability.sd3'') \<longrightarrow>
      path [Key ''prompt''] (sentBody e modelId prompt negative size' w)
        = Some (JStr (take 10000 prompt))
      \<and> length (take 10000 prompt) \<le> 10000)
   \<and> (\<not> startsWith modelId (js ''amazon.titan'') \<and> \<not> startsWith modelId (js ''stability.sd3'') \<longrightarrow>
      path [Key ''text_prompts'', Idx 0, Key ''text''] (sentBody e modelId prompt negative size' w)
        = Some (JStr (take 2000 prompt))
      \<and> length (take 2000 prompt) \<le> 2000)"
  by (simp add: sentBody_eq titan_text sd3_text sdxl_text)

theorem prompt_truncated_to_adapter_limit_witness:
  "path [Key ''textToImageParams'', Key ''text'']
     (sentBody sample_env (js ''amazon.titan-image-generator-v1'') (replicate 600 0x41) []
        (Some 64) sample_world)
     = Some (JStr (replicate 512 0x41))
   \<and> path [Key ''prompt'']
     (sentBody sample_env (js ''stability.sd3-large-v1:0'') (replicate 10001 0x41) []
        (Some 64) sample_world)
     = Some (JStr (replicate 10000 0x41))
   \<and> path [Key ''text_prompts'', Idx 0, Key ''text'']
     (sentBody sample_env (js ''stability.stable-diffusion-xl-v1'') (replicate 2001 0x41) []
        (Some 64) sample_world)
     = Some (JStr (replicate 2000 0x41))"
  using prompt_truncated_to_adapter_limit
          [of "js ''amazon.titan-image-generator-v1''" sample_env "replicate 600 0x41" "[]"
              "Some 64" sample_world]
        prompt_truncated_to_adapter_limit
          [of "js ''stability.sd3-large-v1:0''" sample_env "replicate 10001 0x41" "[]"
              "Some 64" sample_world]
        prompt_truncated_to_adapter_limit
          [of "js ''stability.stable-diffusion-xl-v1''" sample_env "replicate 2001 0x41" "[]"
              "Some 64" sample_world]
  by (simp add: startsWith_def js_def)

section \<open>The negative prompt in the payload\<close>

text \<open>
  Against claim C3 as stated for every request: with the empty negative prompt the Titan
  body has no \<^verbatim>\<open>negativeText\<close> field at all.
\<close>

theorem negative_encoding_counterexample:
  "path [Key ''textToImageParams'', Key ''negativeText'']
     (sentBody sample_env (js ''amazon.titan-image-generator-v1'') (js ''portrait'') []
        (Some 64) sample_world) = None"
  by (simp add: sentBody_eq requestBody_def Let_def startsWith_def js_def)

text \<open>
  Claim C3, amended. For every request whose negative prompt is not empty: the Titan
  body holds its first 512 code units under \<^verbatim>\<open>textToImageParams.negativeText\<close>; the SD3.5
  body holds it whole under \<^verbatim>\<open>negative_prompt\<close>; the SDXL body has exactly two entries in
  \<^verbatim>\<open>text_prompts\<close>, the prompt with weight 1 and then the negative prompt, whole, with
  weight -1.
\<close>

theorem negative_encoding_when_given:
  assumes "negative \<noteq> []"
  shows "(startsWith modelId (js ''amazon.titan'') \<longrightarrow>
            path [Key ''textToImageParams'', Key ''negativeText'']
              (sentBody e modelId prompt negative size' w) = Some (JStr (take 512 negative))
            \<and> length (take 512 negative) \<le> 512)
         \<and> (startsWith modelId (js ''stability.sd3'') \<longrightarrow>
            path [Key ''negative_prompt''] (sentBody e modelId prompt negative size' w)
              = Some (JStr negative))
         \<and> (\<not> startsWith modelId (js ''amazon.titan'')
              \<and> \<not> startsWith modelId (js ''stability.sd3'') \<longrightarrow>
            path [Key ''text_prompts''] (sentBody e modelId prompt negative size' w)
              = Some (JArr
                  [JObj [(''text'', JStr (take 2000 prompt)), (''weight'', JNum 1)],
                   JObj [(''text'', JStr negative), (''weight'', JNum (- 1))]]))"
  using assms sd3_not_titan [of modelId]
  by (simp add: sentBody_eq requestBody_def Let_def substring0_def)

theorem negative_encoding_when_given_witness:
  "path [Key ''textToImageParams'', Key ''negativeText'']
     (sentBody sample_env (js ''amazon.titan-image-generator-v1'') (js ''portrait'')
        (replicate 600 0x62) (Some 64) sample_world) = Some (JStr (replicate 512 0x62))
   \<and> path [Key ''negative_prompt'']
     (sentBody sample_env (js ''stability.sd3-large-v1:0'') (js ''portrait'')
        (replicate 600 0x62) (Some 64) sample_world) = Some (JStr (replicate 600 0x62))
   \<and> path [Key ''text_prompts'']
     (sentBody sample_env (js ''stability.stable-diffusion-xl-v1'') (js ''portrait'')
        (js ''blurry'') (Some 64) sample_world)
       = Some (JArr
           [JObj [(''text'', JStr (js ''portrait'')), (''weight'', JNum 1)],
            JObj [(''text'', JStr (js ''blurry'')), (''weight'', JNum (- 1))]])"
proof -
  have n: "replicate 600 (0x62 :: code_unit) \<noteq> []" by simp
  have m: "js ''blurry'' \<noteq> []" by (simp add: js_def)
  show ?thesis
    using negative_encoding_when_given
            [OF n, of "js ''amazon.titan-image-generator-v1''" sample_env "js ''portrait''"
               "Some 64" sample_world]
          negative_encoding_when_given
            [OF n, of "js ''stability.sd3-large-v1:0''" sample_env "js ''portrait''"
               "Some 64" sample_world]
          negative_encoding_when_given
            [OF m, of "js ''stability.stable-diffusion-xl-v1''" sample_env "js ''portrait''"
               "Some 64" sample_world]
    by (simp add: startsWith_def js_def)
qed

text \<open>
  Claim C10. For every request whose negative prompt is the empty string, nothing of it
  is in the body: Titan's \<^verbatim>\<open>textToImageParams\<close> holds the text alone, the SD3.5 body has no
  \<^verbatim>\<open>negative_prompt\<close>, and SDXL's \<^verbatim>\<open>text_prompts\<close> is the one entry of the prompt with
  weight 1.
\<close>

theorem empty_negative_omitted:
  "(startsWith modelId (js ''amazon.titan'') \<longrightarrow>
      path [Key ''textToImageParams''] (sentBody e modelId prompt [] size' w)
        = Some (JObj [(''text'', JStr (take 512 prompt))])
      \<and> path [Key ''textToImageParams'', Key ''negativeText'']
          (sentBody e modelId prompt [] size' w) = None)
   \<and> (startsWith modelId (js ''stability.sd3'') \<longrightarrow>
      path [Key ''negative_prompt''] (sentBody e modelId prompt [] size' w) = None)
   \<and> (\<not> startsWith modelId (js ''amazon.titan'')
        \<and> \<not> startsWith modelId (js ''stability.sd3'') \<longrightarrow>
      path [Key ''text_prompts''] (sentBody e modelId prompt [] size' w)
        = Some (JArr [JObj [(''text'', JStr (take 2000 prompt)), (''weight'', JNum 1)]]))"
  using sd3_not_titan [of modelId]
  by (simp add: sentBody_eq requestBody_def Let_def substring0_def)

theorem empty_negative_omitted_witness:
  "path [Key ''textToImageParams'']
     (sentBody sample_env (js ''amazon.titan-image-generator-v1'') (js ''icon'') []
        (Some 64) sample_world) = Some (JObj [(''text'', JStr (js ''icon''))])
   \<and> path [Key ''negative_prompt'']
     (sentBody sample_env (js ''stability.sd3-large-v1:0'') (js ''icon'') []
        (Some 64) sample_world) = None
   \<and> path [Key ''text_prompts'']
     (sentBody sample_env (js ''stability.stable-diffusion-xl-v1'') (js ''icon'') []
        (Some 64) sample_world)
       = Some (JArr [JObj [(''text'', JStr (js ''icon'')), (''weight'', JNum 1)]])"
  using empty_negative_omitted
          [of "js ''amazon.titan-image-generator-v1''" sample_env "js ''icon''" "Some 64"
              sample_world]
        empty_negative_omitted
          [of "js ''stability.sd3-large-v1:0''" sample_env "js ''icon''" "Some 64" sample_world]
        empty_negative_omitted
          [of "js ''stability.stable-diffusion-xl-v1''" sample_env "js ''icon''" "Some 64"
              sample_world]
  by (simp add: startsWith_def js_def)

section \<open>The composed prompt\<close>

lemma split_no_sep:
  "sep \<notin> set s \<Longrightarrow> split sep s = [s]"
  by (induction s) auto

lemma split_at_sep:
  "sep \<notin> set a \<Longrightarrow> split sep (a @ sep # rest) = a # split sep rest"
  by (induction a) auto

lemma split_first:
  "take (Suc 0) (split sep s) = [takeWhile (\<lambda>c. c \<noteq> sep) s]"
  by (induction s) (auto split: list.splits)

lemma setting_text:
  "join (js ''.'') (take 2 (split period context)) = firstTwoSegments context"
proof (cases "dropWhile (\<lambda>c. c \<noteq> period) context")
  case Nil
  then have "period \<notin> set context"
    by (auto simp add: dropWhile_eq_Nil_conv)
  then have "split period context = [context]"
    by (rule split_no_sep)
  moreover have "firstTwoSegments context = context"
    unfolding firstTwoSegments_def Nil by simp
  ultimately show ?thesis
    by simp
next
  case (Cons d rest)
  let ?a = "takeWhile (\<lambda>c. c \<noteq> period) context"
  have "dropWhile (\<lambda>c. c \<noteq> period) context \<noteq> []"
    using Cons by simp
  then have "\<not> (hd (dropWhile (\<lambda>c. c \<noteq> period) context) \<noteq> period)"
    by (rule hd_dropWhile)
  with Cons have d: "d = period"
    by simp
  have "context = ?a @ dropWhile (\<lambda>c. c \<noteq> period) context"
    by simp
  with Cons d have c: "context = ?a @ period # rest"
    by simp
  have "period \<notin> set ?a"
    by (auto dest: set_takeWhileD)
  then have "split period (?a @ period # rest) = ?a # split period rest"
    by (rule split_at_sep)
  with c have "split period context = ?a # split period rest"
    by simp
  then have "take 2 (split period context) = [?a, takeWhile (\<lambda>c. c \<noteq> period) rest]"
    by (simp add: numeral_2_eq_2 split_first)
  moreover have "firstTwoSegments context = ?a @ [period] @ takeWhile (\<lambda>c. c \<noteq> period) rest"
    unfolding firstTwoSegments_def Cons by simp
  ultimately show ?thesis
    by (simp add: js_def period_def)
qed

text \<open>
  Against claim C4 as stated: the prompt that \<^verbatim>\<open>buildPrompt\<close> returns is not the five
  lines joined by blank lines; the description follows the identity line after a single
  line break.
\<close>

theorem blank_lines_counterexample:
  "buildPrompt (js ''A. B. C.'') (js ''S'') (js ''N'') (js ''R'') (js ''D'') (js ''F'')
     \<noteq> blankLineJoined (js ''A. B. C.'') (js ''S'') (js ''N'') (js ''R'') (js ''D'') (js ''F'')"
  by (simp add: buildPrompt_def blankLineJoined_def js_def nl_def period_def)

text \<open>
  Claim C4, amended. For every frame, context, style, name, role and description, the
  prompt is four blocks separated by blank lines, in this order: the frame; the identity
  line \<^verbatim>\<open>Character: name, role.\<close> with the description on the next line; the line
  \<^verbatim>\<open>Setting: \<close> followed by the setting text and a period; the line \<^verbatim>\<open>Style: \<close>
  followed by the style. The setting text is the first two period-delimited pieces of
  the context joined by a period, that is, the context up to its second period, or all
  of it when it has fewer than two.
\<close>

theorem prompt_layout:
  "buildPrompt context style name role description frame =
     join [nl, nl]
       [frame,
        js ''Character: '' @ name @ js '', '' @ role @ js ''.'' @ [nl] @ description,
        js ''Setting: '' @ firstTwoSegments context @ js ''.'',
        js ''Style: '' @ style]
   \<and> firstTwoSegments context = join (js ''.'') (take 2 (split period context))"
  by (simp add: buildPrompt_def setting_text)

section \<open>The image field of the response\<close>

text \<open>
  Against claim C5 as stated: on the empty object the failure is \<^verbatim>\<open>Error\<close> with the
  message \<^verbatim>\<open>No image in response\<close>, which is not the message the claim words; and the
  response \<^verbatim>\<open>null\<close>, which has neither field, fails with a \<^verbatim>\<open>TypeError\<close> on the first
  property read.
\<close>

theorem no_image_counterexample:
  "fst (generateImage (sample_env\<lparr>invokeModel := \<lambda>i req. Inr (JObj [])\<rparr>)
          (js ''amazon.titan-image-generator-v1'') (js ''portrait'') (js ''blurry'') (Some 64)
          sample_world) = Inl (Error ''No image in response'')
   \<and> ''No image in response'' \<noteq> ''no image in response''
   \<and> fst (generateImage (sample_env\<lparr>invokeModel := \<lambda>i req. Inr JNull\<rparr>)
          (js ''amazon.titan-image-generator-v1'') (js ''portrait'') (js ''blurry'') (Some 64)
          sample_world) = Inl TypeError"
  by (simp add: generateImage_result answer_def extractImage_def sample_env_def)

text \<open>
  Claim C5, amended. For every model id and every response other than \<^verbatim>\<open>null\<close> that has
  neither an \<^verbatim>\<open>images\<close> nor an \<^verbatim>\<open>artifacts\<close> field, \<^verbatim>\<open>generateImage\<close> fails with
  \<^verbatim>\<open>Error\<close> and the message \<^verbatim>\<open>No image in response\<close>.
\<close>

theorem no_image_in_response:
  assumes "answer e modelId prompt negative w = Inr responseBody"
    and "responseBody \<noteq> JNull"
    and "path [Key ''images''] responseBody = None"
    and "path [Key ''artifacts''] responseBody = None"
  shows "fst (generateImage e modelId prompt negative size' w)
           = Inl (Error ''No image in response'')"
proof -
  have i: "getProp (Some responseBody) ''images'' = Inr None"
    using assms(2,3) by (cases responseBody) (auto split: option.splits)
  have a: "getProp (Some responseBody) ''artifacts'' = Inr None"
    using assms(2,4) by (cases responseBody) (auto split: option.splits)
  show ?thesis
    using assms(1) i a by (simp add: generateImage_result extractImage_def)
qed

theorem no_image_in_response_witness:
  "fst (generateImage (sample_env\<lparr>invokeModel := \<lambda>i req. Inr (JObj [(''error'', JStr (js ''x''))])\<rparr>)
          (js ''amazon.titan-image-generator-v1'') (js ''icon'') [] (Some 64) sample_world)
     = Inl (Error ''No image in response'')
   \<and> fst (generateImage (sample_env\<lparr>invokeModel := \<lambda>i req. Inr (JObj [(''error'', JStr (js ''x''))])\<rparr>)
          (js ''stability.sd3-large-v1:0'') (js ''icon'') [] (Some 64) sample_world)
     = Inl (Error ''No image in response'')
   \<and> fst (generateImage (sample_env\<lparr>invokeModel := \<lambda>i req. Inr (JArr [])\<rparr>)
          (js ''stability.stable-diffusion-xl-v1'') (js ''icon'') [] (Some 64) sample_world)
     = Inl (Error ''No image in response'')"
proof -
  let ?r = "JObj [(''error'', JStr (js ''x''))]"
  let ?e = "sample_env\<lparr>invokeModel := \<lambda>i req. Inr ?r\<rparr>"
  let ?d = "sample_env\<lparr>invokeModel := \<lambda>i req. Inr (JArr [])\<rparr>"
  have a: "answer ?e m (js ''icon'') [] sample_world = Inr ?r" for m
    by (simp add: answer_def)
  have n: "?r \<noteq> JNull"
    by simp
  have i: "path [Key ''images''] ?r = None"
    by simp
  have r: "path [Key ''artifacts''] ?r = None"
    by simp
  have b: "answer ?d m (js ''icon'') [] sample_world = Inr (JArr [])" for m
    by (simp add: answer_def)
  have o: "JArr [] \<noteq> JNull"
    by simp
  have j: "path [Key ''images''] (JArr []) = None"
    by simp
  have q: "path [Key ''artifacts''] (JArr []) = None"
    by simp
  show ?thesis
    using no_image_in_response [OF a n i r, of "js ''amazon.titan-image-generator-v1''" "Some 64"]
          no_image_in_response [OF a n i r, of "js ''stability.sd3-large-v1:0''" "Some 64"]
          no_image_in_response [OF b o j q, of "js ''stability.stable-diffusion-xl-v1''" "Some 64"]
    by simp
qed

text \<open>
  Against claim C9 as stated: a response that has an \<^verbatim>\<open>images\<close> field holding \<^verbatim>\<open>null\<close>
  is decoded from \<^verbatim>\<open>artifacts[0].base64\<close>.
\<close>

theorem images_present_counterexample:
  "getProp (Some (JObj [(''images'', JNull),
      (''artifacts'', JArr [JObj [(''base64'', JStr (js ''Qg==''))]])])) ''images''
     = Inr (Some JNull)
   \<and> extractImage (JObj [(''images'', JNull),
      (''artifacts'', JArr [JObj [(''base64'', JStr (js ''Qg==''))]])])
     = Inr (Some (JStr (js ''Qg=='')))
   \<and> fst (generateImage
        (sample_env\<lparr>invokeModel := \<lambda>i req. Inr (JObj [(''images'', JNull),
           (''artifacts'', JArr [JObj [(''base64'', JStr (js ''Qg==''))]])])\<rparr>)
        (js ''amazon.titan-image-generator-v1'') (js ''portrait'') (js ''blurry'') (Some 64)
        sample_world) = Inr [0x42]"
  by (simp add: generateImage_result answer_def extractImage_def sample_env_def js_def)

text \<open>
  Claim C9, amended. The image field is chosen by the response alone, whatever the model
  id: when \<^verbatim>\<open>images\<close> is truthy (present and not \<^verbatim>\<open>null\<close>, \<^verbatim>\<open>false\<close>, 0 or the empty
  string) the result is decoded from \<^verbatim>\<open>images[0]\<close>, and the \<^verbatim>\<open>artifacts\<close> field is read
  only when \<^verbatim>\<open>images\<close> is absent or falsy.
\<close>

theorem images_field_chosen_by_shape:
  assumes "answer e modelId prompt negative w = Inr responseBody"
    and "getProp (Some responseBody) ''images'' = Inr images"
  shows "(truthy images \<longrightarrow>
            extractImage responseBody = index0 images
            \<and> fst (generateImage e modelId prompt negative size' w) =
                (case index0 images of
                   Inl err \<Rightarrow> Inl err
                 | Inr base64Image \<Rightarrow>
                     (case atob e base64Image of
                        Inl err \<Rightarrow> Inl err
                      | Inr bin \<Rightarrow> Inr (map ucast bin))))
         \<and> (\<not> truthy images \<longrightarrow>
            extractImage responseBody =
              (case getProp (Some responseBody) ''artifacts'' of
                 Inl err \<Rightarrow> Inl err
               | Inr artifacts \<Rightarrow>
                   if truthy artifacts
                   then (case index0 artifacts of
                           Inl err \<Rightarrow> Inl err
                         | Inr first \<Rightarrow> getProp first ''base64'')
                   else Inl (Error ''No image in response'')))"
  using assms by (simp add: generateImage_result extractImage_def)

theorem images_field_chosen_by_shape_witness:
  "fst (generateImage
     (sample_env\<lparr>invokeModel := \<lambda>i req. Inr (JObj [(''images'', JArr [JStr (js ''QQ=='')]),
        (''artifacts'', JArr [JObj [(''base64'', JStr (js ''Qg==''))]])])\<rparr>)
     (js ''stability.stable-diffusion-xl-v1'') (js ''icon'') [] (Some 64) sample_world)
     = Inr [0x41]
   \<and> extractImage (JObj [(''images'', JStr []),
        (''artifacts'', JArr [JObj [(''base64'', JStr (js ''Qg==''))]])])
     = Inr (Some (JStr (js ''Qg=='')))"
proof -
  let ?r = "JObj [(''images'', JArr [JStr (js ''QQ=='')]),
        (''artifacts'', JArr [JObj [(''base64'', JStr (js ''Qg==''))]])]"
  let ?e = "sample_env\<lparr>invokeModel := \<lambda>i req. Inr ?r\<rparr>"
  let ?q = "JObj [(''images'', JStr []),
        (''artifacts'', JArr [JObj [(''base64'', JStr (js ''Qg==''))]])]"
  let ?d = "sample_env\<lparr>invokeModel := \<lambda>i req. Inr ?q\<rparr>"
  have a: "answer ?e (js ''stability.stable-diffusion-xl-v1'') (js ''icon'') [] sample_world
             = Inr ?r"
    by (simp add: answer_def)
  have i: "getProp (Some ?r) ''images'' = Inr (Some (JArr [JStr (js ''QQ=='')]))"
    by simp
  have b: "answer ?d (js ''stability.stable-diffusion-xl-v1'') (js ''icon'') [] sample_world
             = Inr ?q"
    by (simp add: answer_def)
  have j: "getProp (Some ?q) ''images'' = Inr (Some (JStr []))"
    by simp
  show ?thesis
    using images_field_chosen_by_shape [OF a i, of "Some 64"]
          images_field_chosen_by_shape [OF b j, of "Some 64"]
    by (simp add: sample_env_def js_def)
qed

section \<open>Size and required fields\<close>

text \<open>
  Against claim C6 as stated: with the size 2048 selected, \<^verbatim>\<open>handleGenerate\<close> calls the
  backend and shows the image, and \<^verbatim>\<open>generateImage\<close> called with 2048 returns the bytes.
\<close>

theorem size_not_validated_counterexample:
  "parseInt sample_env (js ''2048'') = Some 2048
   \<and> fst (handleGenerate sample_env (sample_form\<lparr>size_select := js ''2048''\<rparr>) sample_world)
       = Displayed [0x41]
   \<and> length (calls (snd (handleGenerate sample_env (sample_form\<lparr>size_select := js ''2048''\<rparr>)
        sample_world))) = 1
   \<and> fst (generateImage sample_env (js ''amazon.titan-image-generator-v1'') (js ''portrait'')
        (js ''blurry'') (Some 2048) sample_world) = Inr [0x41]"
  by (simp add: handleGenerate_parts generateImage_world generateImage_result answer_def
      extractImage_def sample_env_def sample_world_def sample_form_def js_def)

text \<open>
  Claim C6, amended. No size is rejected: \<^verbatim>\<open>generateImage\<close> returns the same result and
  leaves the same world for every size, it makes its one backend call whatever the
  size, and \<^verbatim>\<open>handleGenerate\<close> does the same whatever the size field holds and whatever
  \<^verbatim>\<open>parseInt\<close> makes of it.
\<close>

theorem size_is_ignored:
  "generateImage e modelId prompt negative size' w = generateImage e modelId prompt negative size'' w
   \<and> length (calls (snd (generateImage e modelId prompt negative size' w))) = Suc (length (calls w))
   \<and> handleGenerate (e\<lparr>parseInt := q\<rparr>) (f\<lparr>size_select := s\<rparr>) w = handleGenerate e f w"
proof -
  have a: "generateImage e modelId prompt negative size' w
             = generateImage e modelId prompt negative size'' w"
    using generateImage_size [of e modelId prompt negative size' w]
          generateImage_size [of e modelId prompt negative size'' w] by simp
  have b: "length (calls (snd (generateImage e modelId prompt negative size' w)))
             = Suc (length (calls w))"
    by (simp add: generateImage_world)
  have c: "handleGenerate (e\<lparr>parseInt := q\<rparr>) (f\<lparr>size_select := s\<rparr>) w = handleGenerate e f w"
    by (simp add: handleGenerate_parts generateImage_parseInt
        generateImage_size [of _ _ _ _ "q s"]
        generateImage_size [of _ _ _ _ "parseInt e (size_select f)"])
  from a b c show ?thesis by simp
qed

text \<open>
  Against claim C7 as stated: with an empty frame and the other fields filled in, the
  backend is called and the image shown; with frame and name filled in and the style
  empty, the validation message is shown and nothing is sent.
\<close>

theorem frame_not_validated_counterexample:
  "fst (handleGenerate sample_env (sample_form\<lparr>prompt_frame := []\<rparr>) sample_world)
       = Displayed [0x41]
   \<and> length (calls (snd (handleGenerate sample_env (sample_form\<lparr>prompt_frame := []\<rparr>)
        sample_world))) = 1
   \<and> handleGenerate sample_env (sample_form\<lparr>world_style := []\<rparr>) sample_world
       = (ErrorShown ''Please fill in world context, style, and character name'', sample_world)"
  by (simp add: handleGenerate_parts generateImage_world generateImage_result answer_def
      extractImage_def sample_env_def sample_world_def sample_form_def js_def)

text \<open>
  Claim C7, amended. With credentials held, \<^verbatim>\<open>handleGenerate\<close> shows the validation
  message and changes nothing, so sends nothing, when the world context, the world style
  or the character name is empty; when all three are non-empty it composes the prompt
  and sends exactly one request carrying it. The frame is not looked at.
\<close>

theorem validation_of_required_fields:
  assumes "awsCredentials w \<noteq> None"
  shows "(world_context f = [] \<or> world_style f = [] \<or> char_name f = [] \<longrightarrow>
            handleGenerate e f w
              = (ErrorShown ''Please fill in world context, style, and character name'', w))
         \<and> (world_context f \<noteq> [] \<and> world_style f \<noteq> [] \<and> char_name f \<noteq> [] \<longrightarrow>
            fst (handleGenerate e f w)
              \<noteq> ErrorShown ''Please fill in world context, style, and character name''
            \<and> calls (snd (handleGenerate e f w)) =
                calls w @
                  [invokeRequest (model_select f)
                     (requestBody (model_select f)
                        (buildPrompt (world_context f) (world_style f) (char_name f)
                           (char_role f) (char_description f) (prompt_frame f))
                        (negative_prompt f) (mathRandom e (draws w)))])"
  using assms by (auto simp add: handleGenerate_parts generateImage_world split: sum.splits)

theorem validation_of_required_fields_witness:
  "handleGenerate sample_env (sample_form\<lparr>char_name := []\<rparr>) sample_world
     = (ErrorShown ''Please fill in world context, style, and character name'', sample_world)
   \<and> length (calls (snd (handleGenerate sample_env sample_form sample_world))) = 1"
proof -
  have c: "awsCredentials sample_world \<noteq> None"
    by (simp add: sample_world_def)
  have a: "handleGenerate sample_env (sample_form\<lparr>char_name := []\<rparr>) sample_world
     = (ErrorShown ''Please fill in world context, style, and character name'', sample_world)"
    using validation_of_required_fields [OF c, of "sample_form\<lparr>char_name := []\<rparr>" sample_env]
    by simp
  have b: "length (calls (snd (handleGenerate sample_env sample_form sample_world))) = 1"
    using validation_of_required_fields [OF c, of sample_form sample_env]
    by (simp add: sample_form_def sample_world_def js_def)
  from a b show ?thesis by simp
qed

section \<open>The seed\<close>

lemma roundHalfEven_le:
  assumes "q \<le> of_int m"
  shows "roundHalfEven q \<le> m"
proof (cases "q = of_int m")
  case True
  then show ?thesis by (simp add: roundHalfEven_def)
next
  case False
  with assms have "q < of_int m" by simp
  then have "\<lfloor>q\<rfloor> < m" by (simp add: floor_less_iff)
  then show ?thesis by (simp add: roundHalfEven_def Let_def)
qed

lemma roundHalfEven_nonneg:
  assumes "0 \<le> q"
  shows "0 \<le> roundHalfEven q"
proof -
  have "0 \<le> \<lfloor>q\<rfloor>" using assms by simp
  then show ?thesis by (simp add: roundHalfEven_def Let_def)
qed

lemma exponent_le:
  assumes "0 < x" and "x < 2 ^ 53"
  shows "exponent x \<le> 52"
proof (cases "1 \<le> x")
  case True
  have "\<lfloor>x\<rfloor> < 2 ^ 53"
    using assms by (simp add: floor_less_iff)
  then have "bitlen \<lfloor>x\<rfloor> \<le> 53"
    by (simp add: bitlen_le_iff_power)
  with True show ?thesis by (simp add: exponent_def)
next
  case False
  have "0 \<le> bitlen (\<lceil>1 / x\<rceil> - 1)" by (rule bitlen_nonneg)
  with False show ?thesis by (simp add: exponent_def)
qed

lemma toDouble_nonneg:
  assumes "0 \<le> x"
  shows "0 \<le> toDouble x"
proof (cases "x = 0")
  case True
  then show ?thesis by (simp add: toDouble_def)
next
  case False
  let ?k = "max (exponent \<bar>x\<bar>) (- 1022) - 52"
  have "0 \<le> x / 2 powi ?k"
    using assms by simp
  then have "0 \<le> roundHalfEven (x / 2 powi ?k)"
    by (rule roundHalfEven_nonneg)
  then have "0 \<le> of_int (roundHalfEven (x / 2 powi ?k)) * (2::rat) powi ?k"
    by simp
  with False show ?thesis by (simp add: toDouble_def Let_def)
qed

lemma toDouble_le_int:
  assumes "0 \<le> x" and "x \<le> of_int n" and "x < 2 ^ 53"
  shows "toDouble x \<le> of_int n"
proof (cases "x = 0")
  case True
  with assms show ?thesis by (simp add: toDouble_def)
next
  case False
  let ?k = "max (exponent \<bar>x\<bar>) (- 1022) - 52"
  have "exponent \<bar>x\<bar> \<le> 52"
    using assms False by (intro exponent_le) auto
  then have k: "?k \<le> 0" by simp
  define j where "j = nat (- ?k)"
  have p: "(2::rat) powi ?k = 1 / 2 ^ j"
    using k by (simp add: power_int_def j_def field_simps)
  have "x / 2 powi ?k = x * 2 ^ j"
    by (simp add: p)
  also have "\<dots> \<le> of_int n * 2 ^ j"
    using assms by simp
  also have "\<dots> = of_int (n * 2 ^ j)"
    by simp
  finally have "roundHalfEven (x / 2 powi ?k) \<le> n * 2 ^ j"
    by (rule roundHalfEven_le)
  then have "(of_int (roundHalfEven (x / 2 powi ?k)) :: rat) \<le> of_int (n * 2 ^ j)"
    by (simp only: of_int_le_iff)
  then have "of_int (roundHalfEven (x / 2 powi ?k)) * (2::rat) powi ?k \<le> of_int n"
    by (simp add: p field_simps)
  with False show ?thesis by (simp add: toDouble_def Let_def)
qed

lemma floor_draw_bounds:
  fixes r :: rat
  assumes "0 \<le> r" and "r < 1" and "0 < n" and "n < 2 ^ 53"
  shows "0 \<le> \<lfloor>toDouble (r * of_int n)\<rfloor> \<and> \<lfloor>toDouble (r * of_int n)\<rfloor> \<le> n"
proof -
  have x0: "0 \<le> r * of_int n"
    using assms by simp
  have xn: "r * of_int n \<le> of_int n"
    using assms by (simp add: mult_left_le_one_le)
  have "(of_int n :: rat) < 2 ^ 53"
    using assms by (metis of_int_less_numeral_power_cancel_iff)
  with xn have xb: "r * of_int n < 2 ^ 53"
    by simp
  have "0 \<le> toDouble (r * of_int n)"
    using x0 by (rule toDouble_nonneg)
  moreover have "toDouble (r * of_int n) \<le> of_int n"
    using x0 xn xb by (rule toDouble_le_int)
  ultimately show ?thesis
    by (simp add: floor_le_iff le_floor_iff)
qed

lemma sentBodyWithSeed_eq:
  "sentBodyWithSeed e modelId prompt negative size' seed w =
     requestBody modelId prompt negative (mathRandom e (draws w))"
  by (simp add: sentBodyWithSeed_def generateImageWithSeed_def generateImage_world
      invokeRequest_def)

lemma toDouble_rounds_up:
  "\<lfloor>toDouble (roundingDraw * 2147483646)\<rfloor> = 512"
  by code_simp

lemma toDouble_half_sd:
  "\<lfloor>toDouble 2147483647\<rfloor> = 2147483647"
  by code_simp

text \<open>
  Against claim C8 as stated: a caller that passes the seed 42 gets a request whose seed
  is 1073741823, the floor of half of 2147483646, not 42.
\<close>

theorem seed_counterexample:
  "path [Key ''imageGenerationConfig'', Key ''seed'']
     (sentBodyWithSeed sample_env (js ''amazon.titan-image-generator-v1'') (js ''portrait'') []
        (Some 64) 42 sample_world) = Some (JNum 1073741823)
   \<and> path [Key ''imageGenerationConfig'', Key ''seed'']
     (sentBodyWithSeed sample_env (js ''amazon.titan-image-generator-v1'') (js ''portrait'') []
        (Some 64) 42 sample_world) \<noteq> Some (JNum 42)"
  by (simp add: sentBodyWithSeed_eq requestBody_def Let_def startsWith_def js_def sample_env_def
      sample_world_def toDouble_half_titan)

text \<open>
  Claim C8, amended. \<^verbatim>\<open>generateImage\<close> has no seed parameter, and a seed that a caller
  passes is ignored. For every call, with \<open>r\<close> the number \<^verbatim>\<open>Math.random()\<close> returns,
  \<open>0 \<le> r < 1\<close>, the seed in the body is \<^verbatim>\<open>Math.floor(r * 2147483646)\<close> for a Titan id,
  a value from 0 to \<open>2^31 - 2\<close>, and \<^verbatim>\<open>Math.floor(r * 4294967294)\<close> for every other id,
  a value from 0 to \<open>2^32 - 2\<close>, the product being the double one.
\<close>

theorem seed_drawn_from_random:
  assumes "0 \<le> mathRandom e (draws w)" and "mathRandom e (draws w) < 1"
  shows "(startsWith modelId (js ''amazon.titan'') \<longrightarrow>
            path [Key ''imageGenerationConfig'', Key ''seed'']
              (sentBodyWithSeed e modelId prompt negative size' seed w)
              = Some (JNum (of_int \<lfloor>toDouble (mathRandom e (draws w) * 2147483646)\<rfloor>))
            \<and> 0 \<le> \<lfloor>toDouble (mathRandom e (draws w) * 2147483646)\<rfloor>
            \<and> \<lfloor>toDouble (mathRandom e (draws w) * 2147483646)\<rfloor> \<le> 2 ^ 31 - 2)
         \<and> (\<not> startsWith modelId (js ''amazon.titan'') \<longrightarrow>
            path [Key ''seed''] (sentBodyWithSeed e modelId prompt negative size' seed w)
              = Some (JNum (of_int \<lfloor>toDouble (mathRandom e (draws w) * 4294967294)\<rfloor>))
            \<and> 0 \<le> \<lfloor>toDouble (mathRandom e (draws w) * 4294967294)\<rfloor>
            \<and> \<lfloor>toDouble (mathRandom e (draws w) * 4294967294)\<rfloor> \<le> 2 ^ 32 - 2)"
proof -
  have t: "0 \<le> \<lfloor>toDouble (mathRandom e (draws w) * 2147483646)\<rfloor>
           \<and> \<lfloor>toDouble (mathRandom e (draws w) * 2147483646)\<rfloor> \<le> 2 ^ 31 - 2"
    using floor_draw_bounds [OF assms, of 2147483646] by simp
  have s: "0 \<le> \<lfloor>toDouble (mathRandom e (draws w) * 4294967294)\<rfloor>
           \<and> \<lfloor>toDouble (mathRandom e (draws w) * 4294967294)\<rfloor> \<le> 2 ^ 32 - 2"
    using floor_draw_bounds [OF assms, of 4294967294] by simp
  have p1: "startsWith modelId (js ''amazon.titan'') \<Longrightarrow>
      path [Key ''imageGenerationConfig'', Key ''seed'']
        (sentBodyWithSeed e modelId prompt negative size' seed w)
        = Some (JNum (of_int \<lfloor>toDouble (mathRandom e (draws w) * 2147483646)\<rfloor>))"
    by (simp add: sentBodyWithSeed_eq requestBody_def Let_def)
  have p2: "\<not> startsWith modelId (js ''amazon.titan'') \<Longrightarrow>
      path [Key ''seed''] (sentBodyWithSeed e modelId prompt negative size' seed w)
        = Some (JNum (of_int \<lfloor>toDouble (mathRandom e (draws w) * 4294967294)\<rfloor>))"
    by (simp add: sentBodyWithSeed_eq requestBody_def Let_def)
  from t s p1 p2 show ?thesis by blast
qed

theorem seed_drawn_from_random_witness:
  "path [Key ''imageGenerationConfig'', Key ''seed'']
     (sentBodyWithSeed sample_env (js ''amazon.titan-image-generator-v1'') (js ''icon'')
        (js ''blurry'') (Some 64) 7 sample_world) = Some (JNum 1073741823)
   \<and> path [Key ''seed'']
     (sentBodyWithSeed sample_env (js ''stability.sd3-large-v1:0'') (js ''icon'') (js ''blurry'')
        (Some 64) 7 sample_world) = Some (JNum 2147483647)
   \<and> path [Key ''seed'']
     (sentBodyWithSeed sample_env (js ''stability.stable-diffusion-xl-v1'') (js ''icon'')
        (js ''blurry'') (Some 64) 7 sample_world) = Some (JNum 2147483647)
   \<and> path [Key ''imageGenerationConfig'', Key ''seed'']
     (sentBodyWithSeed (sample_env\<lparr>mathRandom := \<lambda>i. roundingDraw\<rparr>)
        (js ''amazon.titan-image-generator-v1'') (js ''icon'') (js ''blurry'') (Some 64) 7
        sample_world) = Some (JNum 512)"
proof -
  let ?d = "sample_env\<lparr>mathRandom := \<lambda>i. roundingDraw\<rparr>"
  have lo: "0 \<le> mathRandom sample_env (draws sample_world)"
    by (simp add: sample_env_def sample_world_def)
  have hi: "mathRandom sample_env (draws sample_world) < 1"
    by (simp add: sample_env_def sample_world_def)
  have lo': "0 \<le> mathRandom ?d (draws sample_world)"
    by (simp add: roundingDraw_def)
  have hi': "mathRandom ?d (draws sample_world) < 1"
    by (simp add: roundingDraw_def)
  show ?thesis
    using seed_drawn_from_random [OF lo hi, of "js ''amazon.titan-image-generator-v1''"
            "js ''icon''" "js ''blurry''" "Some 64" 7]
          seed_drawn_from_random [OF lo hi, of "js ''stability.sd3-large-v1:0''"
            "js ''icon''" "js ''blurry''" "Some 64" 7]
          seed_drawn_from_random [OF lo hi, of "js ''stability.stable-diffusion-xl-v1''"
            "js ''icon''" "js ''blurry''" "Some 64" 7]
          seed_drawn_from_random [OF lo' hi', of "js ''amazon.titan-image-generator-v1''"
            "js ''icon''" "js ''blurry''" "Some 64" 7]
    by (simp add: startsWith_def js_def sample_env_def sample_world_def toDouble_half_titan
        toDouble_half_sd toDouble_rounds_up)
qed

end
